theory Spec2Isabelle
  imports Main
begin

section \<open>The local RAG tools of main.py: index_notes and query_notes\<close>

text \<open>
  The two tools share one module-level variable, \<^verbatim>\<open>vector_store\<close>, which starts as
  \<^verbatim>\<open>None\<close>. \<^verbatim>\<open>index_notes\<close> reads a directory, builds a FAISS store and assigns it to the
  variable; \<^verbatim>\<open>query_notes\<close> reads the variable and searches the store. Both return a
  message string. Everything else they do is a call into a library (os.path, langchain's
  DirectoryLoader, HuggingFaceEmbeddings and FAISS); those calls are parameters of the
  model, collected in an environment record, and each call returns a sum whose left injection
  is the exception it raised.
\<close>

subsection \<open>Data\<close>

text \<open>
  A langchain \<^verbatim>\<open>Document\<close>: its text and its metadata dictionary. Characters of a
  \<^typ>\<open>string\<close> stand for the characters of a Python \<^verbatim>\<open>str\<close>.
\<close>

record document =
  page_content :: string
  metadata :: "string \<rightharpoonup> string"

text \<open>
  An exception object, with the text that \<^verbatim>\<open>str(e)\<close> gives. \<open>Exception msg\<close> is an instance
  of \<^verbatim>\<open>Exception\<close> or of one of its subclasses. \<open>BaseException msg\<close> is an instance of a
  class that derives from \<^verbatim>\<open>BaseException\<close> and not from \<^verbatim>\<open>Exception\<close>:
  \<^verbatim>\<open>KeyboardInterrupt\<close>, \<^verbatim>\<open>SystemExit\<close>, \<^verbatim>\<open>GeneratorExit\<close>, the panic of a native extension.
\<close>

datatype exception = Exception string | BaseException string

fun str :: "exception \<Rightarrow> string" where
  "str (Exception msg) = msg"
| "str (BaseException msg) = msg"

text \<open>\<^verbatim>\<open>isinstance(e, Exception)\<close>.\<close>

fun is_Exception :: "exception \<Rightarrow> bool" where
  "is_Exception (Exception msg) = True"
| "is_Exception (BaseException msg) = False"

text \<open>
  The handler of both tools (lines 373 and 374, lines 398 and 399):
  \<^verbatim>\<open>except Exception as e: return f"<prefix>{str(e)}"\<close>. An instance of \<^verbatim>\<open>Exception\<close> is
  caught and becomes the returned message; any other exception is not caught and leaves
  the function.
\<close>

definition except_Exception :: "string \<Rightarrow> exception \<Rightarrow> exception + string" where
  "except_Exception prefix e = (if is_Exception e then Inr (prefix @ str e) else Inl e)"

text \<open>The library calls a tool makes, in the order it makes them, with their arguments.\<close>

datatype ('vs, 'emb) call =
    PathExists string
  | DirectoryLoad string string
  | HuggingFaceEmbeddings string
  | FromDocuments "document list" 'emb
  | SimilaritySearch 'vs string int

text \<open>
  The environment. \<open>import_langchain\<close> is the outcome of the import statements at the top
  of \<^verbatim>\<open>index_notes\<close> (lines 345 to 348): \<open>None\<close> when they succeed, the exception when one of
  them raises. \<open>path_exists p\<close> is \<^verbatim>\<open>os.path.exists(p)\<close>, \<open>directory_load p g\<close> is \<^verbatim>\<open>DirectoryLoader(p, glob=g, loader_cls=TextLoader).load()\<close>,
  \<open>huggingface_embeddings m\<close> is \<^verbatim>\<open>HuggingFaceEmbeddings(model_name=m)\<close>, \<open>from_documents\<close> is
  \<^verbatim>\<open>FAISS.from_documents\<close> and \<open>similarity_search vs q k\<close> is \<^verbatim>\<open>vs.similarity_search(q, k=k)\<close>.
  A store is a value of the type \<open>'vs\<close>: the library builds a new one for each call of
  \<open>from_documents\<close> and a search does not change the one it reads.
\<close>

record ('vs, 'emb) env =
  import_langchain :: "exception option"
  path_exists :: "string \<Rightarrow> exception + bool"
  directory_load :: "string \<Rightarrow> string \<Rightarrow> exception + document list"
  huggingface_embeddings :: "string \<Rightarrow> exception + 'emb"
  from_documents :: "document list \<Rightarrow> 'emb \<Rightarrow> exception + 'vs"
  similarity_search :: "'vs \<Rightarrow> string \<Rightarrow> int \<Rightarrow> exception + document list"

text \<open>
  What one invocation of a tool leaves behind: what the caller gets (\<open>Inr\<close> the returned
  string, \<open>Inl\<close> an exception that leaves the function), the value of the global
  \<^verbatim>\<open>vector_store\<close> afterwards, and the library calls made.
\<close>

record ('vs, 'emb) outcome =
  reply :: "exception + string"
  store :: "'vs option"
  calls :: "('vs, 'emb) call list"

text \<open>Line 336: \<^verbatim>\<open>vector_store = None\<close>.\<close>

definition vector_store_initial :: "'vs option" where
  "vector_store_initial = None"

subsection \<open>Strings\<close>

abbreviation newline :: char where
  "newline \<equiv> CHR 0x0A"

abbreviation quote :: char where
  "quote \<equiv> CHR 0x27"

text \<open>\<^verbatim>\<open>str(n)\<close> for a length: the decimal digits of a natural number.\<close>

fun str_nat :: "nat \<Rightarrow> string" where
  "str_nat n =
     (if n < 10 then [''0123456789'' ! n]
      else str_nat (n div 10) @ [''0123456789'' ! (n mod 10)])"

declare str_nat.simps [simp del]

subsection \<open>index_notes\<close>

text \<open>
  Lines 355 to 361: load the \<^verbatim>\<open>.md\<close> files; when the list is empty (\<^verbatim>\<open>if not docs\<close>), load
  the \<^verbatim>\<open>.txt\<close> files instead. The result is the value of \<^verbatim>\<open>docs\<close>, or the exception a
  load raised, with the loads made.
\<close>

definition load_docs ::
  "('vs, 'emb) env \<Rightarrow> string \<Rightarrow> (exception + document list) \<times> ('vs, 'emb) call list" where
  "load_docs env directory_path =
     (case directory_load env directory_path ''**/*.md'' of
        Inl e \<Rightarrow> (Inl e, [DirectoryLoad directory_path ''**/*.md''])
      | Inr docs \<Rightarrow>
          if docs = [] then
            (directory_load env directory_path ''**/*.txt'',
             [DirectoryLoad directory_path ''**/*.md'', DirectoryLoad directory_path ''**/*.txt''])
          else (Inr docs, [DirectoryLoad directory_path ''**/*.md'']))"

text \<open>
  Lines 368 and 369: create the embeddings object, then the store from the documents.
  The result is the new store, not yet assigned, or the exception raised.
\<close>

definition build_store ::
  "('vs, 'emb) env \<Rightarrow> document list \<Rightarrow> (exception + 'vs) \<times> ('vs, 'emb) call list" where
  "build_store env docs =
     (case huggingface_embeddings env ''all-MiniLM-L6-v2'' of
        Inl e \<Rightarrow> (Inl e, [HuggingFaceEmbeddings ''all-MiniLM-L6-v2''])
      | Inr embeddings \<Rightarrow>
          (from_documents env docs embeddings,
           [HuggingFaceEmbeddings ''all-MiniLM-L6-v2'', FromDocuments docs embeddings]))"

text \<open>
  The tool. The imports come before the \<^verbatim>\<open>try\<close>, so an exception of theirs leaves the
  function. Inside the \<^verbatim>\<open>try\<close>, an exception raised by a call goes to the handler of
  line 373. The global is assigned in one place, line 369, with the finished store.
\<close>

definition index_notes ::
  "('vs, 'emb) env \<Rightarrow> 'vs option \<Rightarrow> string \<Rightarrow> ('vs, 'emb) outcome" where
  "index_notes env vector_store directory_path =
     (case import_langchain env of
        Some e \<Rightarrow> \<lparr>reply = Inl e, store = vector_store, calls = []\<rparr>
      | None \<Rightarrow>
          (case path_exists env directory_path of
             Inl e \<Rightarrow>
               \<lparr>reply = except_Exception ''Failed to index notes: '' e,
                store = vector_store,
                calls = [PathExists directory_path]\<rparr>
           | Inr found \<Rightarrow>
               if \<not> found then
                 \<lparr>reply = Inr (''Directory not found: '' @ directory_path),
                  store = vector_store,
                  calls = [PathExists directory_path]\<rparr>
               else
                 (case load_docs env directory_path of
                    (Inl e, loads) \<Rightarrow>
                      \<lparr>reply = except_Exception ''Failed to index notes: '' e,
                       store = vector_store,
                       calls = PathExists directory_path # loads\<rparr>
                  | (Inr docs, loads) \<Rightarrow>
                      if docs = [] then
                        \<lparr>reply = Inr ''No .md or .txt files found to index.'',
                         store = vector_store,
                         calls = PathExists directory_path # loads\<rparr>
                      else
                        (case build_store env docs of
                           (Inl e, builds) \<Rightarrow>
                             \<lparr>reply = except_Exception ''Failed to index notes: '' e,
                              store = vector_store,
                              calls = PathExists directory_path # loads @ builds\<rparr>
                         | (Inr vs, builds) \<Rightarrow>
                             \<lparr>reply = Inr (''Successfully indexed '' @ str_nat (length docs)
                                             @ '' documents from '' @ directory_path @ ''.''),
                              store = Some vs,
                              calls = PathExists directory_path # loads @ builds\<rparr>))))"

subsection \<open>query_notes\<close>

text \<open>
  Lines 393 to 395, the body of the loop: the block appended to the output for one
  document.
\<close>

definition format_doc :: "document \<Rightarrow> string" where
  "format_doc doc =
     (let source = (case metadata doc ''source'' of None \<Rightarrow> ''Unknown'' | Some s \<Rightarrow> s);
          content = map (\<lambda>c. if c = newline then CHR '' '' else c) (take 500 (page_content doc))
      in ''--- Source: '' @ source @ '' ---'' @ [newline] @ content @ ''...'' @ [newline, newline])"

text \<open>
  The tool. The test of line 384 comes before the \<^verbatim>\<open>try\<close>; the search always asks for
  \<^verbatim>\<open>k=3\<close>; the loop of line 392 appends one block for each result, in the order of the
  results. The function has the global in scope and does not assign it.
\<close>

definition query_notes ::
  "('vs, 'emb) env \<Rightarrow> 'vs option \<Rightarrow> string \<Rightarrow> ('vs, 'emb) outcome" where
  "query_notes env vector_store query =
     (case vector_store of
        None \<Rightarrow>
          \<lparr>reply = Inr ''No notes indexed yet. Please call index_notes(directory_path) first.'',
           store = vector_store,
           calls = []\<rparr>
      | Some vs \<Rightarrow>
          (case similarity_search env vs query 3 of
             Inl e \<Rightarrow>
               \<lparr>reply = except_Exception ''Failed to query notes: '' e,
                store = vector_store,
                calls = [SimilaritySearch vs query 3]\<rparr>
           | Inr results \<Rightarrow>
               \<lparr>reply = Inr (foldl (\<lambda>output doc. output @ format_doc doc)
                                  (''Results for '' @ [quote] @ query @ [quote] @ '':''
                                     @ [newline, newline])
                                  results),
                store = vector_store,
                calls = [SimilaritySearch vs query 3]\<rparr>))"

subsection \<open>A query while a build runs\<close>




subsection \<open>Reading a reply, and calls in sequence\<close>

text \<open>
  The caller of \<open>index_notes\<close> gets a string and nothing else. The string of line 371
  starts with \<^verbatim>\<open>Successfully indexed\<close> and a space; the strings of lines 352, 364 and 374
  start otherwise. A reply reports success when it is a returned string with that prefix.
\<close>

definition reports_success :: "exception + string \<Rightarrow> bool" where
  "reports_success r =
     (case r of Inl e \<Rightarrow> False | Inr msg \<Rightarrow> take 21 msg = ''Successfully indexed '')"

text \<open>
  A history of builds: \<open>index_notes\<close> called once for each entry, each call starting from
  the global the call before left. The environment comes with the entry, since the file
  system may differ from one call to the next. The result is the replies, in order, and
  the global after the last call.
\<close>

fun run_builds ::
  "'vs option \<Rightarrow> (('vs, 'emb) env \<times> string) list \<Rightarrow> (exception + string) list \<times> 'vs option" where
  "run_builds vector_store [] = ([], vector_store)"
| "run_builds vector_store ((env, directory_path) # rest) =
     (let r = index_notes env vector_store directory_path;
          (replies, final) = run_builds (store r) rest
      in (reply r # replies, final))"

subsection \<open>A sample environment\<close>

text \<open>
  Three documents and a small file system: \<open>notes\<close> holds two \<^verbatim>\<open>.md\<close> files and a
  \<^verbatim>\<open>.txt\<close> file, \<open>texts\<close> holds the \<^verbatim>\<open>.txt\<close> file only, \<open>empty\<close> holds neither kind,
  \<open>locked\<close> cannot be read, and no other path exists. A store is the list of its
  documents and a search returns the first \<open>k\<close> of them.
\<close>

definition doc_a :: document where
  "doc_a = \<lparr>page_content = ''alpha notes'', metadata = [''source'' \<mapsto> ''notes/a.md'']\<rparr>"

definition doc_long :: document where
  "doc_long = \<lparr>page_content = replicate 501 (CHR ''z''),
                metadata = [''source'' \<mapsto> ''notes/long.md'']\<rparr>"

definition doc_t :: document where
  "doc_t = \<lparr>page_content = ''hi'', metadata = [''source'' \<mapsto> ''texts/t.txt'']\<rparr>"

definition sample_env :: "(document list, string) env" where
  "sample_env =
     \<lparr>import_langchain = None,
      path_exists = (\<lambda>p. Inr (p = ''notes'' \<or> p = ''texts'' \<or> p = ''empty'' \<or> p = ''locked'')),
      directory_load = (\<lambda>p g.
         if p = ''notes'' \<and> g = ''**/*.md'' then Inr [doc_a, doc_long]
         else if (p = ''notes'' \<or> p = ''texts'') \<and> g = ''**/*.txt'' then Inr [doc_t]
         else if p = ''locked'' then Inl (Exception ''Permission denied'')
         else Inr []),
      huggingface_embeddings = (\<lambda>model_name. Inr model_name),
      from_documents = (\<lambda>docs embeddings. Inr docs),
      similarity_search = (\<lambda>vs query k. Inr (take (nat k) vs))\<rparr>"

text \<open>The same, with the embedding model out of reach.\<close>

definition offline_env :: "(document list, string) env" where
  "offline_env =
     sample_env\<lparr>huggingface_embeddings := (\<lambda>model_name. Inl (Exception ''model not available''))\<rparr>"

text \<open>The same, without the package \<^verbatim>\<open>langchain_community\<close> installed.\<close>

definition no_langchain_env :: "(document list, string) env" where
  "no_langchain_env =
     sample_env\<lparr>import_langchain :=
       Some (Exception (''No module named '' @ [quote] @ ''langchain_community'' @ [quote]))\<rparr>"

text \<open>The same, with the search interrupted from the keyboard.\<close>

definition interrupted_env :: "(document list, string) env" where
  "interrupted_env =
     sample_env\<lparr>similarity_search := (\<lambda>vs query k. Inl (BaseException ''KeyboardInterrupt''))\<rparr>"

section \<open>Properties\<close>

subsection \<open>Auxiliary facts\<close>

lemma except_Exception_no_success:
  "\<not> reports_success (except_Exception ''Failed to index notes: '' e)"
  by (simp add: except_Exception_def reports_success_def)

lemma index_notes_failure_store:
  "\<not> reports_success (reply (index_notes env s d)) \<Longrightarrow> store (index_notes env s d) = s"
  by (auto simp: index_notes_def reports_success_def
           split: option.splits sum.splits prod.splits if_splits)

lemma index_notes_failure_reply:
  "\<not> reports_success (reply (index_notes env s d)) \<Longrightarrow>
     (\<exists>e. import_langchain env = Some e \<and> reply (index_notes env s d) = Inl e)
   \<or> (path_exists env d = Inr False
        \<and> reply (index_notes env s d) = Inr (''Directory not found: '' @ d))
   \<or> (fst (load_docs env d) = Inr []
        \<and> reply (index_notes env s d) = Inr ''No .md or .txt files found to index.'')
   \<or> (\<exists>e. (path_exists env d = Inl e
             \<or> fst (load_docs env d) = Inl e
             \<or> (\<exists>docs. fst (load_docs env d) = Inr docs \<and> fst (build_store env docs) = Inl e))
          \<and> (if is_Exception e
              then reply (index_notes env s d) = Inr (''Failed to index notes: '' @ str e)
              else reply (index_notes env s d) = Inl e))"
  by (auto simp: index_notes_def reports_success_def except_Exception_def
           split: option.splits sum.splits prod.splits if_splits)

lemma index_notes_failure_iff:
  "\<not> reports_success (reply (index_notes env s d))
     \<longleftrightarrow> import_langchain env \<noteq> None
       \<or> (\<exists>e. path_exists env d = Inl e)
       \<or> path_exists env d = Inr False
       \<or> fst (load_docs env d) = Inr []
       \<or> (\<exists>e. fst (load_docs env d) = Inl e)
       \<or> (\<exists>docs e. fst (load_docs env d) = Inr docs \<and> fst (build_store env docs) = Inl e)"
  by (auto simp: index_notes_def reports_success_def except_Exception_def
           split: option.splits sum.splits prod.splits if_splits)

lemma index_notes_success:
  "reports_success (reply (index_notes env s d)) \<Longrightarrow>
     \<exists>docs embeddings vs. docs \<noteq> [] \<and> fst (load_docs env d) = Inr docs
        \<and> huggingface_embeddings env ''all-MiniLM-L6-v2'' = Inr embeddings
        \<and> from_documents env docs embeddings = Inr vs
        \<and> store (index_notes env s d) = Some vs"
  by (auto simp: index_notes_def reports_success_def build_store_def except_Exception_def
           split: option.splits sum.splits prod.splits if_splits)

lemma index_notes_reply_any_store:
  "reply (index_notes env s d) = reply (index_notes env s' d)"
  by (auto simp: index_notes_def split: option.splits sum.splits prod.splits if_splits)


lemma run_builds_failures:
  "\<forall>r \<in> set (fst (run_builds s history)). \<not> reports_success r \<Longrightarrow>
     snd (run_builds s history) = s"
proof (induction history arbitrary: s)
  case Nil
  then show ?case by simp
next
  case (Cons a history)
  obtain env d where a: "a = (env, d)" by (cases a)
  from Cons.prems have first: "\<not> reports_success (reply (index_notes env s d))"
    by (simp add: a Let_def case_prod_beta)
  from Cons.prems
  have rest: "\<forall>r \<in> set (fst (run_builds (store (index_notes env s d)) history)).
                \<not> reports_success r"
    by (simp add: a Let_def case_prod_beta)
  from Cons.IH [OF rest] index_notes_failure_store [OF first]
  show ?case by (simp add: a Let_def case_prod_beta)
qed

lemma foldl_append_concat:
  "foldl (\<lambda>output doc. output @ f doc) acc xs = acc @ concat (map f xs)"
  by (induction xs arbitrary: acc) simp_all

lemma query_notes_None:
  "query_notes env None q =
     \<lparr>reply = Inr ''No notes indexed yet. Please call index_notes(directory_path) first.'',
      store = None, calls = []\<rparr>"
  by (simp add: query_notes_def)

lemma query_notes_calls:
  "calls (query_notes env (Some vs) q) = [SimilaritySearch vs q 3]"
  by (simp add: query_notes_def split: sum.split)

lemma query_notes_reply:
  "reply (query_notes env (Some vs) q) =
     (case similarity_search env vs q 3 of
        Inl e \<Rightarrow>
          if is_Exception e then Inr (''Failed to query notes: '' @ str e) else Inl e
      | Inr results \<Rightarrow>
          Inr (''Results for '' @ [quote] @ q @ [quote] @ '':'' @ [newline, newline]
                 @ concat (map format_doc results)))"
  by (simp add: query_notes_def foldl_append_concat except_Exception_def split: sum.split)


lemmas sample_defs =
  sample_env_def offline_env_def no_langchain_env_def interrupted_env_def
  doc_a_def doc_long_def doc_t_def
  index_notes_def query_notes_def load_docs_def build_store_def format_doc_def
  except_Exception_def reports_success_def str_nat.simps

subsection \<open>What changes the index\<close>

text \<open>
  Claim C10. A query is read-only on the shared index: whatever the environment, the
  value of the global before the call and the query text, the global has the same value
  after \<open>query_notes\<close> as before it, whether the call returned results, the not-indexed
  message or a failure message. A build changes the global only when its reply reports
  success.
\<close>

theorem query_notes_keeps_store:
  "store (query_notes env vector_store query) = vector_store
   \<and> (store (index_notes env' vector_store directory_path) \<noteq> vector_store
        \<longrightarrow> reports_success (reply (index_notes env' vector_store directory_path)))"
proof (intro conjI impI)
  show "store (query_notes env vector_store query) = vector_store"
    by (simp add: query_notes_def split: option.split sum.split)
next
  assume "store (index_notes env' vector_store directory_path) \<noteq> vector_store"
  then show "reports_success (reply (index_notes env' vector_store directory_path))"
    using index_notes_failure_store [of env' vector_store directory_path] by blast
qed

theorem query_notes_keeps_store_witness:
  "store (index_notes sample_env None ''notes'') \<noteq> None
   \<and> reports_success (reply (index_notes sample_env None ''notes''))
   \<and> store (query_notes sample_env (store (index_notes sample_env None ''notes'')) ''alpha'')
       = store (index_notes sample_env None ''notes'')"
proof -
  have h: "store (index_notes sample_env None ''notes'') \<noteq> None"
    by (simp add: sample_defs)
  note inst = query_notes_keeps_store
    [of sample_env "store (index_notes sample_env None ''notes'')" "''alpha''"]
  note inst' = query_notes_keeps_store [of sample_env None "''alpha''" sample_env "''notes''"]
  from inst' h have "reports_success (reply (index_notes sample_env None ''notes''))"
    by blast
  with h inst show ?thesis by blast
qed

subsection \<open>Failed builds\<close>

text \<open>
  Claim C1. A build that fails leaves the shared index as it was. The reply of
  \<open>index_notes\<close> does not report success exactly when an import raises, or the existence
  test raises, or the directory does not exist, or no \<^verbatim>\<open>.md\<close> and no \<^verbatim>\<open>.txt\<close> file is found,
  or a load raises, or the embeddings constructor or the construction of the store
  raises. In each of these cases the global after the call is the global before it
  (absent if it was absent, the same store if there was one) and the caller is told of
  the failure: the reply is the message for the missing directory, the message for no
  files, the failure message with the text of the exception when the handler catches it,
  or the exception itself when it is not caught (one of an import, or one that is not an
  instance of \<^verbatim>\<open>Exception\<close>). The store is assigned after it has been built, so there is no
  state in between.
\<close>

theorem index_notes_failure_preserves_index:
  "(\<not> reports_success (reply (index_notes env vector_store directory_path))
      \<longleftrightarrow> import_langchain env \<noteq> None
        \<or> (\<exists>e. path_exists env directory_path = Inl e)
        \<or> path_exists env directory_path = Inr False
        \<or> fst (load_docs env directory_path) = Inr []
        \<or> (\<exists>e. fst (load_docs env directory_path) = Inl e)
        \<or> (\<exists>docs e. fst (load_docs env directory_path) = Inr docs
               \<and> fst (build_store env docs) = Inl e))
   \<and> (\<not> reports_success (reply (index_notes env vector_store directory_path))
      \<longrightarrow> store (index_notes env vector_store directory_path) = vector_store
        \<and> ((\<exists>e. import_langchain env = Some e
                \<and> reply (index_notes env vector_store directory_path) = Inl e)
           \<or> (path_exists env directory_path = Inr False
                \<and> reply (index_notes env vector_store directory_path)
                    = Inr (''Directory not found: '' @ directory_path))
           \<or> (fst (load_docs env directory_path) = Inr []
                \<and> reply (index_notes env vector_store directory_path)
                    = Inr ''No .md or .txt files found to index.'')
           \<or> (\<exists>e. (path_exists env directory_path = Inl e
                     \<or> fst (load_docs env directory_path) = Inl e
                     \<or> (\<exists>docs. fst (load_docs env directory_path) = Inr docs
                           \<and> fst (build_store env docs) = Inl e))
                  \<and> (if is_Exception e
                      then reply (index_notes env vector_store directory_path)
                             = Inr (''Failed to index notes: '' @ str e)
                      else reply (index_notes env vector_store directory_path) = Inl e))))"
proof (intro conjI impI)
  show "\<not> reports_success (reply (index_notes env vector_store directory_path))
      \<longleftrightarrow> import_langchain env \<noteq> None
        \<or> (\<exists>e. path_exists env directory_path = Inl e)
        \<or> path_exists env directory_path = Inr False
        \<or> fst (load_docs env directory_path) = Inr []
        \<or> (\<exists>e. fst (load_docs env directory_path) = Inl e)
        \<or> (\<exists>docs e. fst (load_docs env directory_path) = Inr docs
               \<and> fst (build_store env docs) = Inl e)"
    by (rule index_notes_failure_iff)
next
  assume "\<not> reports_success (reply (index_notes env vector_store directory_path))"
  then show "store (index_notes env vector_store directory_path) = vector_store"
    by (rule index_notes_failure_store)
next
  assume "\<not> reports_success (reply (index_notes env vector_store directory_path))"
  then show "(\<exists>e. import_langchain env = Some e
                \<and> reply (index_notes env vector_store directory_path) = Inl e)
           \<or> (path_exists env directory_path = Inr False
                \<and> reply (index_notes env vector_store directory_path)
                    = Inr (''Directory not found: '' @ directory_path))
           \<or> (fst (load_docs env directory_path) = Inr []
                \<and> reply (index_notes env vector_store directory_path)
                    = Inr ''No .md or .txt files found to index.'')
           \<or> (\<exists>e. (path_exists env directory_path = Inl e
                     \<or> fst (load_docs env directory_path) = Inl e
                     \<or> (\<exists>docs. fst (load_docs env directory_path) = Inr docs
                           \<and> fst (build_store env docs) = Inl e))
                  \<and> (if is_Exception e
                      then reply (index_notes env vector_store directory_path)
                             = Inr (''Failed to index notes: '' @ str e)
                      else reply (index_notes env vector_store directory_path) = Inl e))"
    by (rule index_notes_failure_reply)
qed

text \<open>
  An instance: an index over \<open>[doc_a]\<close> is in place, the directory \<open>texts\<close> is read, and the
  embedding model cannot be created.
\<close>

theorem index_notes_failure_preserves_index_witness:
  "(\<exists>docs e. fst (load_docs offline_env ''texts'') = Inr docs
        \<and> fst (build_store offline_env docs) = Inl e)
   \<and> \<not> reports_success (reply (index_notes offline_env (Some [doc_a]) ''texts''))
   \<and> store (index_notes offline_env (Some [doc_a]) ''texts'') = Some [doc_a]
   \<and> reply (index_notes offline_env (Some [doc_a]) ''texts'')
       = Inr ''Failed to index notes: model not available''"
proof -
  have cause: "\<exists>docs e. fst (load_docs offline_env ''texts'') = Inr docs
        \<and> fst (build_store offline_env docs) = Inl e"
    by (simp add: sample_defs)
  note inst = index_notes_failure_preserves_index [of offline_env "Some [doc_a]" "''texts''"]
  from inst cause
  have h: "\<not> reports_success (reply (index_notes offline_env (Some [doc_a]) ''texts''))"
    by blast
  with inst have kept: "store (index_notes offline_env (Some [doc_a]) ''texts'') = Some [doc_a]"
    by blast
  have r: "reply (index_notes offline_env (Some [doc_a]) ''texts'')
             = Inr ''Failed to index notes: model not available''"
    by (simp add: sample_defs)
  from cause h kept r show ?thesis by blast
qed

subsection \<open>Queries without an index\<close>

text \<open>
  Claim C2. A query issued before any build has succeeded fails with the not-indexed
  message, which tells the caller to call \<open>index_notes\<close> first, and the store is not
  searched. For every history of builds that starts from the initial value of the global
  and in which no reply reports success, a query after the history, on any text and in
  any environment, returns that message, makes no library call and leaves the global
  absent.
\<close>

theorem query_before_any_successful_build:
  assumes "\<forall>r \<in> set (fst (run_builds vector_store_initial history)). \<not> reports_success r"
  shows "query_notes env (snd (run_builds vector_store_initial history)) query =
     \<lparr>reply = Inr ''No notes indexed yet. Please call index_notes(directory_path) first.'',
      store = None, calls = []\<rparr>"
  using run_builds_failures [OF assms] by (simp add: vector_store_initial_def query_notes_None)

text \<open>
  An instance: three builds fail, for three different reasons, and a query follows.
\<close>

theorem query_before_any_successful_build_witness:
  "fst (run_builds vector_store_initial
        [(sample_env, ''empty''), (offline_env, ''notes''), (sample_env, ''nowhere'')])
     = [Inr ''No .md or .txt files found to index.'',
        Inr ''Failed to index notes: model not available'',
        Inr ''Directory not found: nowhere'']
   \<and> query_notes sample_env
        (snd (run_builds vector_store_initial
           [(sample_env, ''empty''), (offline_env, ''notes''), (sample_env, ''nowhere'')]))
        ''alpha'' =
      \<lparr>reply = Inr ''No notes indexed yet. Please call index_notes(directory_path) first.'',
       store = None, calls = []\<rparr>"
proof -
  have replies: "fst (run_builds vector_store_initial
        [(sample_env, ''empty''), (offline_env, ''notes''), (sample_env, ''nowhere'')])
     = [Inr ''No .md or .txt files found to index.'',
        Inr ''Failed to index notes: model not available'',
        Inr ''Directory not found: nowhere'']"
    by (simp add: vector_store_initial_def sample_defs)
  have h: "\<forall>r \<in> set (fst (run_builds vector_store_initial
        [(sample_env, ''empty''), (offline_env, ''notes''), (sample_env, ''nowhere'')])).
      \<not> reports_success r"
    unfolding replies by (simp add: reports_success_def)
  from query_before_any_successful_build [OF h] replies show ?thesis by blast
qed

subsection \<open>Rebuilds\<close>

text \<open>
  Claim C3. A rebuild replaces the index, it does not merge. For two builds that both
  report success, the first over \<open>d1\<close> and the second over \<open>d2\<close> (each in its own
  environment, since the file system may have changed in between), the global after the
  second build is the store that \<open>from_documents\<close> built from the documents loaded from
  \<open>d2\<close> and from nothing else, and it is the very store the second build leaves when no
  index existed before it: nothing of the first build is in it.
\<close>

theorem rebuild_replaces_index:
  assumes "reports_success (reply (index_notes env1 vector_store d1))"
      and "reports_success (reply (index_notes env2 (store (index_notes env1 vector_store d1)) d2))"
  shows "store (index_notes env2 (store (index_notes env1 vector_store d1)) d2)
           = store (index_notes env2 None d2)
     \<and> (\<exists>docs embeddings vs.
           fst (load_docs env2 d2) = Inr docs
         \<and> huggingface_embeddings env2 ''all-MiniLM-L6-v2'' = Inr embeddings
         \<and> from_documents env2 docs embeddings = Inr vs
         \<and> store (index_notes env2 (store (index_notes env1 vector_store d1)) d2) = Some vs)"
proof -
  let ?s1 = "store (index_notes env1 vector_store d1)"
  from assms(2) have fresh: "reports_success (reply (index_notes env2 None d2))"
    by (simp add: index_notes_reply_any_store [of env2 None d2 ?s1])
  from index_notes_success [OF assms(2)] obtain docs embeddings vs where
    after: "fst (load_docs env2 d2) = Inr docs"
      "huggingface_embeddings env2 ''all-MiniLM-L6-v2'' = Inr embeddings"
      "from_documents env2 docs embeddings = Inr vs"
      "store (index_notes env2 ?s1 d2) = Some vs"
    by blast
  from index_notes_success [OF fresh] after
  have "store (index_notes env2 None d2) = Some vs" by auto
  with after show ?thesis by auto
qed

theorem rebuild_replaces_index_witness:
  "reports_success (reply (index_notes sample_env None ''notes''))
   \<and> reports_success
       (reply (index_notes sample_env (store (index_notes sample_env None ''notes'')) ''texts''))
   \<and> store (index_notes sample_env None ''notes'') = Some [doc_a, doc_long]
   \<and> store (index_notes sample_env (store (index_notes sample_env None ''notes'')) ''texts'')
       = Some [doc_t]"
proof -
  have h1: "reports_success (reply (index_notes sample_env None ''notes''))"
    by (simp add: sample_defs)
  have h2: "reports_success
       (reply (index_notes sample_env (store (index_notes sample_env None ''notes'')) ''texts''))"
    by (simp add: sample_defs)
  have first: "store (index_notes sample_env None ''notes'') = Some [doc_a, doc_long]"
    by (simp add: sample_defs)
  have fresh: "store (index_notes sample_env None ''texts'') = Some [doc_t]"
    by (simp add: sample_defs)
  from rebuild_replaces_index [OF h1 h2] fresh
  have "store (index_notes sample_env (store (index_notes sample_env None ''notes'')) ''texts'')
          = Some [doc_t]"
    by simp
  with h1 h2 first show ?thesis by blast
qed

subsection \<open>Which files are indexed\<close>




subsection \<open>What a query sends to the store\<close>

text \<open>
  Claim C5, as the code has it. \<open>query_notes\<close> does not look at the query text before it
  uses it, and has no invalid-query reply. An empty query is handled as any other text is:
  without an index the reply is the not-indexed message and no library call is made; with
  an index the empty text goes to \<open>similarity_search\<close> with \<open>k = 3\<close>, once, and the reply
  is the formatted results, or the failure message when the search raises and the
  handler catches the exception; an exception the handler does not catch leaves the
  function.
\<close>

theorem empty_query_is_searched:
  "query_notes env None [] =
     \<lparr>reply = Inr ''No notes indexed yet. Please call index_notes(directory_path) first.'',
      store = None, calls = []\<rparr>
   \<and> calls (query_notes env (Some vs) []) = [SimilaritySearch vs [] 3]
   \<and> reply (query_notes env (Some vs) []) =
       (case similarity_search env vs [] 3 of
          Inl e \<Rightarrow>
            if is_Exception e then Inr (''Failed to query notes: '' @ str e) else Inl e
        | Inr results \<Rightarrow>
            Inr (''Results for '' @ [quote, quote] @ '':'' @ [newline, newline]
                   @ concat (map format_doc results)))"
  by (simp add: query_notes_None query_notes_calls query_notes_reply split: sum.split)

text \<open>
  The claim as written fails: with the store \<open>[doc_t]\<close> in place, the empty query is
  searched for and answered with a result.
\<close>

theorem empty_query_counterexample:
  "calls (query_notes sample_env (Some [doc_t]) []) = [SimilaritySearch [doc_t] [] 3]
   \<and> reply (query_notes sample_env (Some [doc_t]) []) =
       Inr (''Results for '' @ [quote, quote] @ '':'' @ [newline, newline]
              @ ''--- Source: texts/t.txt ---'' @ [newline] @ ''hi...'' @ [newline, newline])"
  by (simp add: sample_defs)

text \<open>
  Claim C7, as the code has it. \<open>query_notes\<close> takes the query text and nothing else: the
  result count is the constant 3 of line 389. Every call with an index in place makes
  one library call, the search of that index for the given text with \<open>k = 3\<close>; a call
  without an index makes none.
\<close>

theorem query_always_asks_for_three:
  "calls (query_notes env vector_store query) =
     (case vector_store of None \<Rightarrow> [] | Some vs \<Rightarrow> [SimilaritySearch vs query 3])"
  by (simp add: query_notes_None query_notes_calls split: option.split)

text \<open>
  The claim as written says that a caller may supply another count. No invocation
  searches with a count other than 3.
\<close>

theorem other_result_count_counterexample:
  "\<not> (\<exists>(env :: (document list, string) env) vector_store query vs q k.
        SimilaritySearch vs q k \<in> set (calls (query_notes env vector_store query)) \<and> k \<noteq> 3)"
proof
  assume "\<exists>(env :: (document list, string) env) vector_store query vs q k.
        SimilaritySearch vs q k \<in> set (calls (query_notes env vector_store query)) \<and> k \<noteq> 3"
  then obtain env :: "(document list, string) env" and vector_store query vs q k
    where mem: "SimilaritySearch vs q k \<in> set (calls (query_notes env vector_store query))"
      and k: "k \<noteq> 3"
    by blast
  show False
  proof (cases vector_store)
    case None
    with mem show False by (simp add: query_notes_None)
  next
    case (Some vs')
    with mem k show False by (simp add: query_notes_calls)
  qed
qed

subsection \<open>How results are rendered\<close>

text \<open>
  Claim C6, as the code has it. When the search returns, the reply is the header line
  followed by one block for each result, in the order of the results. The block of a
  result holds the source and then the snippet: the first 500 characters of the text (all
  of it when it has no more), each newline replaced by a space. The marker \<^verbatim>\<open>...\<close>
  follows the snippet in every block, whether the text was longer than 500 characters or
  not.
\<close>

theorem results_are_truncated_and_marked:
  assumes "similarity_search env vs query 3 = Inr results"
  shows "reply (query_notes env (Some vs) query) =
      Inr (''Results for '' @ [quote] @ query @ [quote] @ '':'' @ [newline, newline]
           @ concat (map (\<lambda>doc.
                ''--- Source: ''
                @ (case metadata doc ''source'' of None \<Rightarrow> ''Unknown'' | Some s \<Rightarrow> s)
                @ '' ---'' @ [newline]
                @ map (\<lambda>c. if c = newline then CHR '' '' else c) (take 500 (page_content doc))
                @ ''...'' @ [newline, newline]) results))
    \<and> (\<forall>doc \<in> set results.
          length (map (\<lambda>c. if c = newline then CHR '' '' else c) (take 500 (page_content doc)))
            = min 500 (length (page_content doc)))"
proof -
  have "format_doc = (\<lambda>doc.
                ''--- Source: ''
                @ (case metadata doc ''source'' of None \<Rightarrow> ''Unknown'' | Some s \<Rightarrow> s)
                @ '' ---'' @ [newline]
                @ map (\<lambda>c. if c = newline then CHR '' '' else c) (take 500 (page_content doc))
                @ ''...'' @ [newline, newline])"
    by (rule ext) (simp add: format_doc_def)
  then show ?thesis
    using assms by (simp add: query_notes_reply min.commute)
qed

theorem results_are_truncated_and_marked_witness:
  "similarity_search sample_env [doc_long, doc_a] ''z'' 3 = Inr [doc_long, doc_a]
   \<and> length (page_content doc_long) = 501
   \<and> reply (query_notes sample_env (Some [doc_long, doc_a]) ''z'') =
       Inr (''Results for '' @ [quote] @ ''z'' @ [quote] @ '':'' @ [newline, newline]
            @ ''--- Source: notes/long.md ---'' @ [newline]
            @ replicate 500 (CHR ''z'') @ ''...'' @ [newline, newline]
            @ ''--- Source: notes/a.md ---'' @ [newline]
            @ ''alpha notes...'' @ [newline, newline])"
proof -
  have h: "similarity_search sample_env [doc_long, doc_a] ''z'' 3 = Inr [doc_long, doc_a]"
    by (simp add: sample_env_def)
  have len: "length (page_content doc_long) = 501"
    by (simp add: doc_long_def)
  from results_are_truncated_and_marked [OF h]
  have "reply (query_notes sample_env (Some [doc_long, doc_a]) ''z'') =
       Inr (''Results for '' @ [quote] @ ''z'' @ [quote] @ '':'' @ [newline, newline]
            @ ''--- Source: notes/long.md ---'' @ [newline]
            @ replicate 500 (CHR ''z'') @ ''...'' @ [newline, newline]
            @ ''--- Source: notes/a.md ---'' @ [newline]
            @ ''alpha notes...'' @ [newline, newline])"
    by (simp add: doc_long_def doc_a_def)
  with h len show ?thesis by blast
qed

text \<open>
  The claim as written says that the marker is there only when the text was truncated.
  The text \<open>hi\<close> has two characters and is rendered in full, with the marker after it.
\<close>

theorem ellipsis_counterexample:
  "length (page_content doc_t) \<le> 500
   \<and> reply (query_notes sample_env (Some [doc_t]) ''hi'') =
       Inr (''Results for '' @ [quote] @ ''hi'' @ [quote] @ '':'' @ [newline, newline]
            @ ''--- Source: texts/t.txt ---'' @ [newline] @ ''hi'' @ ''...'' @ [newline, newline])"
  by (simp add: sample_defs)

subsection \<open>Exceptions\<close>

text \<open>
  Claim C8, as the code has it. Every error that is an instance of \<^verbatim>\<open>Exception\<close> and is
  raised inside the \<^verbatim>\<open>try\<close> of a tool is caught there and comes back to the caller as a
  message string. An exception leaves \<open>index_notes\<close> in two cases only: an import raised
  it (the imports stand before the \<^verbatim>\<open>try\<close>, as they do in every tool of the file), or a
  library call raised it and it is not an instance of \<^verbatim>\<open>Exception\<close>, which the handler
  \<^verbatim>\<open>except Exception\<close> lets through. An exception leaves \<open>query_notes\<close> in the second case
  only. In every other invocation the tool returns a string.
\<close>

theorem exceptions_that_leave:
  "(reply (index_notes env vector_store directory_path) = Inl e
      \<longleftrightarrow> import_langchain env = Some e
        \<or> (import_langchain env = None \<and> \<not> is_Exception e
            \<and> (path_exists env directory_path = Inl e
               \<or> (path_exists env directory_path = Inr True
                   \<and> (fst (load_docs env directory_path) = Inl e
                      \<or> (\<exists>docs. docs \<noteq> [] \<and> fst (load_docs env directory_path) = Inr docs
                            \<and> fst (build_store env docs) = Inl e))))))
   \<and> (reply (query_notes env' vector_store' query) = Inl e'
      \<longleftrightarrow> \<not> is_Exception e'
        \<and> (\<exists>vs. vector_store' = Some vs \<and> similarity_search env' vs query 3 = Inl e'))
   \<and> (is_Exception e \<and> import_langchain env = None
      \<longrightarrow> reply (index_notes env vector_store directory_path) \<noteq> Inl e
        \<and> reply (query_notes env' vector_store' query) \<noteq> Inl e)"
proof (intro conjI impI)
  show "reply (index_notes env vector_store directory_path) = Inl e
      \<longleftrightarrow> import_langchain env = Some e
        \<or> (import_langchain env = None \<and> \<not> is_Exception e
            \<and> (path_exists env directory_path = Inl e
               \<or> (path_exists env directory_path = Inr True
                   \<and> (fst (load_docs env directory_path) = Inl e
                      \<or> (\<exists>docs. docs \<noteq> [] \<and> fst (load_docs env directory_path) = Inr docs
                            \<and> fst (build_store env docs) = Inl e)))))"
    by (auto simp: index_notes_def except_Exception_def
             split: option.splits sum.splits prod.splits if_splits)
next
  show "reply (query_notes env' vector_store' query) = Inl e'
      \<longleftrightarrow> \<not> is_Exception e'
        \<and> (\<exists>vs. vector_store' = Some vs \<and> similarity_search env' vs query 3 = Inl e')"
    by (auto simp: query_notes_def except_Exception_def
             split: option.splits sum.splits if_splits)
next
  assume caught: "is_Exception e \<and> import_langchain env = None"
  then show "reply (index_notes env vector_store directory_path) \<noteq> Inl e"
    by (auto simp: index_notes_def except_Exception_def
             split: option.splits sum.splits prod.splits if_splits)
  from caught show "reply (query_notes env' vector_store' query) \<noteq> Inl e"
    by (auto simp: query_notes_def except_Exception_def
             split: option.splits sum.splits if_splits)
qed

text \<open>
  An instance: the directory \<open>locked\<close> cannot be read, the load raises an instance of
  \<^verbatim>\<open>Exception\<close>, and the caller gets the message.
\<close>

theorem exceptions_that_leave_witness:
  "import_langchain sample_env = None
   \<and> is_Exception (Exception ''Permission denied'')
   \<and> fst (load_docs sample_env ''locked'') = Inl (Exception ''Permission denied'')
   \<and> reply (index_notes sample_env (None :: document list option) ''locked'')
       \<noteq> Inl (Exception ''Permission denied'')
   \<and> reply (index_notes sample_env (None :: document list option) ''locked'')
       = Inr ''Failed to index notes: Permission denied''"
proof -
  have h: "import_langchain sample_env = None"
    by (simp add: sample_env_def)
  have raised: "fst (load_docs sample_env ''locked'') = Inl (Exception ''Permission denied'')"
    by (simp add: sample_defs)
  have r: "reply (index_notes sample_env (None :: document list option) ''locked'')
       = Inr ''Failed to index notes: Permission denied''"
    by (simp add: sample_defs)
  have inst: "is_Exception (Exception ''Permission denied'')"
    by simp
  from exceptions_that_leave
    [of sample_env None "''locked''" "Exception ''Permission denied''" sample_env None "[]"]
    h inst
  have "reply (index_notes sample_env (None :: document list option) ''locked'')
       \<noteq> Inl (Exception ''Permission denied'')"
    by blast
  with h inst raised r show ?thesis by blast
qed

text \<open>
  The claim as written fails in two ways. Where the package is not installed, the import
  of line 346 raises and the exception leaves \<open>index_notes\<close>. Where the search is
  interrupted from the keyboard, the exception is not an instance of \<^verbatim>\<open>Exception\<close> and
  leaves \<open>query_notes\<close>.
\<close>

theorem uncaught_exception_counterexample:
  "reply (index_notes no_langchain_env None ''notes'') =
     Inl (Exception (''No module named '' @ [quote] @ ''langchain_community'' @ [quote]))
   \<and> reply (query_notes interrupted_env (Some [doc_a]) ''alpha'') =
     Inl (BaseException ''KeyboardInterrupt'')"
  by (simp add: sample_defs)

subsection \<open>A query that runs during a rebuild\<close>



end
